theory Spec2Isabelle
  imports Main "HOL-Library.Word"
begin

section \<open>Control-plane API: data model\<close>

text \<open>
  A shallow embedding of \<^verbatim>\<open>control-plane/api/main.py\<close>. Every route handler is a
  function from the SQLAlchemy session it receives to its result and the session it
  leaves behind. A raised exception is the \<open>Inl\<close> branch of the result.
\<close>

type_synonym uuid = "128 word"

text \<open>
  JSON values: the claims of a decoded token, the JSON columns and every response body.
  Numbers are integers here. A \<open>dict\<close> is a Python dictionary with string keys.
\<close>

datatype json =
    JNull
  | JBool bool
  | JNum int
  | JStr string
  | JArr "json list"
  | JObj "(string \<times> json) list"

type_synonym dict = "(string \<times> json) list"

text \<open>
  What a request can raise. \<open>HTTPException\<close> carries the status code and the detail
  of the response. \<open>ValueError\<close> and \<open>AttributeError\<close> come from \<^verbatim>\<open>uuid.UUID(...)\<close>,
  \<open>IndexError\<close> from \<^verbatim>\<open>split(" ")[1]\<close>, and \<open>SQLAlchemyError\<close> from \<^verbatim>\<open>db.execute\<close>. No
  handler catches any of the last four, so the framework answers with status 500.
\<close>

datatype sql_error =
    ProgrammingError
  | StatementError
  | IntegrityError
  | DataError
  | OperationalError

datatype error =
    HTTPException nat string
  | ValueError
  | AttributeError
  | IndexError
  | SQLAlchemyError sql_error

subsection \<open>Request bodies\<close>

text \<open>
  The pydantic models. A request here has passed the validation of the framework, which
  answers any other request with status 422 before a line of the source runs; a field
  of type \<^verbatim>\<open>Dict[str, Any]\<close> therefore holds a dictionary.
\<close>

record CreateTemplateRequest =
  ct_name :: string
  ct_description :: "string option"
  ct_owner_org_id :: "string option"
  ct_tags :: "string list"

record CreateVersionRequest =
  cv_version_label :: string
  cv_artifact_hash :: string
  cv_model_bundle :: dict
  cv_prompt_bundle :: dict
  cv_tool_manifest :: dict
  cv_data_scopes_declared :: "string list"
  cv_build_provenance :: "dict option"

record CreateInstanceRequest =
  ci_version_id :: string
  ci_environment :: string
  ci_runtime_target :: "string option"
  ci_policy_envelope_id :: string

record CreatePolicyRequest =
  cp_name :: string
  cp_autonomy_tier :: int
  cp_allowed_tools :: dict
  cp_allowed_data_scopes :: "string list"
  cp_rate_limits :: "dict option"
  cp_cost_limits :: "dict option"
  cp_guardrails :: "dict option"

subsection \<open>Tables\<close>

text \<open>
  One record per table, with the columns the statements of the source name. A table is
  the list of its rows. \<open>created_at\<close> is filled by the database at insertion; the
  handlers only read it.
\<close>

record template_row =
  t_template_id :: uuid
  t_tenant_id :: uuid
  t_name :: string
  t_description :: "string option"
  t_owner_org_id :: "string option"
  t_tags :: "string list"
  t_created_at :: nat

record version_row =
  v_version_id :: uuid
  v_template_id :: uuid
  v_tenant_id :: uuid
  v_version_label :: string
  v_artifact_hash :: string
  v_model_bundle :: json
  v_prompt_bundle :: json
  v_tool_manifest :: json
  v_data_scopes_declared :: "string list"
  v_build_provenance :: "json option"
  v_release_status :: string
  v_created_at :: nat

record instance_row =
  i_instance_id :: uuid
  i_version_id :: uuid
  i_tenant_id :: uuid
  i_environment :: string
  i_runtime_target :: "string option"
  i_policy_envelope_id :: uuid
  i_status :: string
  i_created_at :: nat

record policy_row =
  p_policy_id :: uuid
  p_tenant_id :: uuid
  p_name :: string
  p_autonomy_tier :: int
  p_allowed_tools :: json
  p_allowed_data_scopes :: "string list"
  p_rate_limits :: "json option"
  p_cost_limits :: "json option"
  p_guardrails :: "json option"
  p_created_at :: nat

record evaluation_row =
  e_version_id :: uuid
  e_status :: string
  e_summary_scores :: json
  e_completed_at :: nat

record event_row =
  ev_tenant_id :: uuid
  ev_event_type :: string
  ev_actor_type :: string
  ev_actor_id :: uuid
  ev_payload :: json

record database =
  agent_templates :: "template_row list"
  agent_versions :: "version_row list"
  agent_instances :: "instance_row list"
  policy_envelopes :: "policy_row list"
  evaluation_runs :: "evaluation_row list"
  events :: "event_row list"

subsection \<open>The session\<close>

text \<open>
  The \<^verbatim>\<open>db\<close> of a request. \<open>data\<close> is the content of the database as the session sees
  it. \<open>app_current_tenant\<close> is the setting written by \<^verbatim>\<open>SET LOCAL\<close>, which lasts to
  the end of the transaction. \<open>executed\<close> logs every statement the database has run for
  the session and \<open>committed\<close> the content made durable by each \<^verbatim>\<open>db.commit()\<close>, oldest
  first.
\<close>

datatype statement =
    SET_LOCAL json
  | SELECT string
  | INSERT string
  | UPDATE string
  | COMMIT

record session =
  data :: database
  app_current_tenant :: "json option"
  executed :: "statement list"
  committed :: "database list"

text \<open>
  The values bound to the parameters of a statement. Every statement of the source is
  a \<^verbatim>\<open>text(...)\<close> whose parameters carry no type, so each value goes to the driver as
  it is. The driver of a \<^verbatim>\<open>postgresql://\<close> URL adapts UUIDs, strings, integers, lists of
  strings and \<^verbatim>\<open>None\<close>; it has no adapter for a dictionary and raises, which SQLAlchemy
  passes on as a \<^verbatim>\<open>ProgrammingError\<close>.
\<close>

datatype param =
    P_uuid uuid
  | P_str string
  | P_int int
  | P_list "string list"
  | P_dict dict
  | P_none

fun adapts :: "param \<Rightarrow> bool" where
  "adapts (P_dict d) = False"
| "adapts p = True"

definition opt_str :: "string option \<Rightarrow> param" where
  "opt_str x = (case x of None \<Rightarrow> P_none | Some s \<Rightarrow> P_str s)"

definition opt_dict :: "dict option \<Rightarrow> param" where
  "opt_dict x = (case x of None \<Rightarrow> P_none | Some d \<Rightarrow> P_dict d)"

text \<open>
  \<open>execute st params f\<close> is \<^verbatim>\<open>db.execute(text(...), {...})\<close> for the statement \<open>st\<close>,
  whose effect on the tables is \<open>f\<close> (the identity for a \<^verbatim>\<open>SELECT\<close>). It raises when a
  bound value cannot be adapted, and then the statement has not run. Otherwise the
  statement acts on the tables as its text says: the source holds no schema, so no
  constraint and no row policy of the database is part of the model. \<open>commit\<close> ends the
  transaction, and with it the setting of \<^verbatim>\<open>SET LOCAL\<close>. No handler raises between a
  write and its commit, so the rollback of \<^verbatim>\<open>db.close()\<close> has nothing to undo.
\<close>

definition execute ::
  "statement \<Rightarrow> param list \<Rightarrow> (database \<Rightarrow> database) \<Rightarrow> session \<Rightarrow> error + session" where
  "execute st params f db =
     (if list_all adapts params
      then Inr (db\<lparr>data := f (data db), executed := executed db @ [st]\<rparr>)
      else Inl (SQLAlchemyError ProgrammingError))"

definition commit :: "session \<Rightarrow> session" where
  "commit db = db\<lparr>app_current_tenant := None,
                  executed := executed db @ [COMMIT],
                  committed := committed db @ [data db]\<rparr>"

text \<open>
  \<open>fetchone\<close> is the first row of a result, if there is one. \<open>order_by_desc\<close> is
  \<^verbatim>\<open>ORDER BY ... DESC\<close>; SQL leaves the order of rows with equal keys open, and here it
  is the reverse of the stable ascending sort. No property below depends on it.
\<close>

definition fetchone :: "'a list \<Rightarrow> 'a option" where
  "fetchone rows = (case rows of [] \<Rightarrow> None | r # _ \<Rightarrow> Some r)"

definition order_by_desc :: "('a \<Rightarrow> nat) \<Rightarrow> 'a list \<Rightarrow> 'a list" where
  "order_by_desc key rows = rev (sort_key key rows)"

subsection \<open>Library functions and the database behind the session\<close>

text \<open>
  The functions of PyJWT and of the Python standard library are parameters of the model:
  \<^item> \<open>jwt_decode\<close> is \<^verbatim>\<open>jwt.decode(token, options={"verify_signature": False})\<close>: the
    claims of the token, or the text of the exception it raises;
  \<^item> \<open>UUID\<close> is \<^verbatim>\<open>uuid.UUID(s)\<close> on a string, \<open>None\<close> where it raises ValueError;
  \<^item> \<open>str_uuid\<close> is \<^verbatim>\<open>str(u)\<close> on a UUID;
  \<^item> \<open>isoformat\<close> is \<^verbatim>\<open>datetime.isoformat()\<close>.

  So is what the database does with the statement of \<^verbatim>\<open>get_current_tenant\<close>. Its text
  is \<^verbatim>\<open>f"SET LOCAL app.current_tenant = '{tenant_id}'"\<close>, the claim of the token written
  into the SQL, so the claim decides what runs: for a claim such as a UUID the
  statement sets the variable and nothing else; a claim with a quote in it ends the
  literal and what follows runs as further SQL; a claim with \<^verbatim>\<open>:name\<close> in it makes
  \<^verbatim>\<open>text()\<close> ask for a parameter that is not bound, and \<^verbatim>\<open>db.execute\<close> raises.
  \<open>set_local_tenant claim d\<close> is the exception raised, or the tables after the
  statement has run on the tables \<open>d\<close>.
\<close>

record env =
  jwt_decode :: "string \<Rightarrow> string + (string \<rightharpoonup> json)"
  UUID :: "string \<Rightarrow> uuid option"
  str_uuid :: "uuid \<Rightarrow> string"
  isoformat :: "nat \<Rightarrow> string"
  set_local_tenant :: "json \<Rightarrow> database \<Rightarrow> sql_error + database"

subsection \<open>Python helpers\<close>

fun split_on :: "char \<Rightarrow> string \<Rightarrow> string list" where
  "split_on c [] = [[]]"
| "split_on c (x # xs) =
     (if x = c then [] # split_on c xs
      else (case split_on c xs of w # ws \<Rightarrow> (x # w) # ws | [] \<Rightarrow> [[x]]))"

definition startswith :: "string \<Rightarrow> string \<Rightarrow> bool" where
  "startswith s p = (take (length p) s = p)"

fun truthy :: "json option \<Rightarrow> bool" where
  "truthy None = False"
| "truthy (Some JNull) = False"
| "truthy (Some (JBool b)) = b"
| "truthy (Some (JNum n)) = (n \<noteq> 0)"
| "truthy (Some (JStr s)) = (s \<noteq> [])"
| "truthy (Some (JArr xs)) = (xs \<noteq> [])"
| "truthy (Some (JObj kvs)) = (kvs \<noteq> [])"

definition json_opt :: "json option \<Rightarrow> json" where
  "json_opt x = (case x of None \<Rightarrow> JNull | Some j \<Rightarrow> j)"

definition json_str_opt :: "string option \<Rightarrow> json" where
  "json_str_opt x = (case x of None \<Rightarrow> JNull | Some s \<Rightarrow> JStr s)"

section \<open>Dependencies\<close>

text \<open>
  \<^verbatim>\<open>get_current_tenant\<close>: the tenant of the bearer token. The 401 raised for a token
  without \<^verbatim>\<open>tenant_id\<close> is raised inside the \<^verbatim>\<open>try\<close>, so the \<^verbatim>\<open>except\<close> catches it and
  raises the 401 whose detail is \<^verbatim>\<open>f"Invalid token: {e}"\<close>; the text of an
  \<^verbatim>\<open>HTTPException\<close> is its status code, a colon and its detail.

  The \<^verbatim>\<open>SET LOCAL\<close> statement and its commit come after the \<^verbatim>\<open>try\<close>, and
  \<^verbatim>\<open>uuid.UUID(tenant_id)\<close> comes last: what they raise is not caught.
\<close>

definition get_current_tenant :: "env \<Rightarrow> string option \<Rightarrow> session \<Rightarrow> (error + uuid) \<times> session" where
  "get_current_tenant env authorization db =
     (case authorization of
        None \<Rightarrow> (Inl (HTTPException 401 ''Missing or invalid authorization''), db)
      | Some a \<Rightarrow>
          if a = [] \<or> \<not> startswith a ''Bearer ''
          then (Inl (HTTPException 401 ''Missing or invalid authorization''), db)
          else if length (split_on CHR '' '' a) \<le> 1 then (Inl IndexError, db)
          else
            let token = split_on CHR '' '' a ! 1 in
            (case jwt_decode env token of
               Inl e \<Rightarrow> (Inl (HTTPException 401 (''Invalid token: '' @ e)), db)
             | Inr payload \<Rightarrow>
                 let tenant_id = payload ''tenant_id'' in
                 if \<not> truthy tenant_id
                 then (Inl (HTTPException 401
                              (''Invalid token: '' @ ''401: Token missing tenant_id'')), db)
                 else
                   (case set_local_tenant env (json_opt tenant_id) (data db) of
                      Inl e \<Rightarrow> (Inl (SQLAlchemyError e), db)
                    | Inr d \<Rightarrow>
                        let db1 = db\<lparr>data := d,
                                     app_current_tenant := Some (json_opt tenant_id),
                                     executed := executed db @ [SET_LOCAL (json_opt tenant_id)]\<rparr>;
                            db2 = commit db1
                        in (case tenant_id of
                              Some (JStr s) \<Rightarrow>
                                (case UUID env s of
                                   None \<Rightarrow> (Inl ValueError, db2)
                                 | Some u \<Rightarrow> (Inr u, db2))
                            | _ \<Rightarrow> (Inl AttributeError, db2)))))"

text \<open>
  A route that declares \<^verbatim>\<open>tenant_id = Depends(get_current_tenant)\<close>: the handler runs
  only when the dependency has returned, on the session the dependency leaves behind.
\<close>

definition authenticated ::
  "env \<Rightarrow> string option \<Rightarrow> (uuid \<Rightarrow> session \<Rightarrow> (error + json) \<times> session) \<Rightarrow> session
   \<Rightarrow> (error + json) \<times> session" where
  "authenticated env authorization handler db =
     (case get_current_tenant env authorization db of
        (Inl e, db') \<Rightarrow> (Inl e, db')
      | (Inr tenant_id, db') \<Rightarrow> handler tenant_id db')"

section \<open>Routes: templates and versions\<close>

text \<open>
  The value of \<^verbatim>\<open>uuid.uuid4()\<close> and the time the database stamps on a new row are
  arguments of the handlers that insert.
\<close>

definition create_template ::
  "env \<Rightarrow> CreateTemplateRequest \<Rightarrow> uuid \<Rightarrow> nat \<Rightarrow> uuid \<Rightarrow> session \<Rightarrow> (error + json) \<times> session" where
  "create_template env req template_id now tenant_id db =
     (let row = \<lparr>t_template_id = template_id, t_tenant_id = tenant_id, t_name = ct_name req,
                 t_description = ct_description req, t_owner_org_id = ct_owner_org_id req,
                 t_tags = ct_tags req, t_created_at = now\<rparr>
      in case execute (INSERT ''agent_templates'')
                [P_uuid template_id, P_uuid tenant_id, P_str (ct_name req),
                 opt_str (ct_description req), opt_str (ct_owner_org_id req),
                 P_list (ct_tags req)]
                (\<lambda>d. d\<lparr>agent_templates := agent_templates d @ [row]\<rparr>) db of
           Inl e \<Rightarrow> (Inl e, db)
         | Inr db1 \<Rightarrow>
             let db2 = commit db1
             in (Inr (JObj [(''template_id'', JStr (str_uuid env template_id)),
                            (''name'', JStr (ct_name req))]), db2))"

definition list_templates :: "env \<Rightarrow> uuid \<Rightarrow> session \<Rightarrow> (error + json) \<times> session" where
  "list_templates env tenant_id db =
     (case execute (SELECT ''agent_templates'') [] id db of
        Inl e \<Rightarrow> (Inl e, db)
      | Inr db1 \<Rightarrow>
          let results = order_by_desc t_created_at (agent_templates (data db1))
          in (Inr (JObj [(''templates'',
                JArr (map (\<lambda>r. JObj [(''template_id'', JStr (str_uuid env (t_template_id r))),
                                       (''name'', JStr (t_name r)),
                                       (''description'', json_str_opt (t_description r)),
                                       (''tags'', JArr (map JStr (t_tags r))),
                                       (''created_at'', JStr (isoformat env (t_created_at r)))])
                          results))]), db1))"

text \<open>
  \<^verbatim>\<open>create_version\<close> binds the three bundles of the request, which are dictionaries, to
  parameters of its \<^verbatim>\<open>INSERT\<close>.
\<close>

definition create_version ::
  "env \<Rightarrow> string \<Rightarrow> CreateVersionRequest \<Rightarrow> uuid \<Rightarrow> nat \<Rightarrow> uuid \<Rightarrow> session
   \<Rightarrow> (error + json) \<times> session" where
  "create_version env template_id req version_id now tenant_id db =
     (case UUID env template_id of
        None \<Rightarrow> (Inl ValueError, db)
      | Some tid \<Rightarrow>
          let row = \<lparr>v_version_id = version_id, v_template_id = tid, v_tenant_id = tenant_id,
                     v_version_label = cv_version_label req,
                     v_artifact_hash = cv_artifact_hash req,
                     v_model_bundle = JObj (cv_model_bundle req),
                     v_prompt_bundle = JObj (cv_prompt_bundle req),
                     v_tool_manifest = JObj (cv_tool_manifest req),
                     v_data_scopes_declared = cv_data_scopes_declared req,
                     v_build_provenance = map_option JObj (cv_build_provenance req),
                     v_release_status = ''draft'', v_created_at = now\<rparr>
          in case execute (INSERT ''agent_versions'')
                    [P_uuid version_id, P_uuid tid, P_uuid tenant_id,
                     P_str (cv_version_label req), P_str (cv_artifact_hash req),
                     P_dict (cv_model_bundle req), P_dict (cv_prompt_bundle req),
                     P_dict (cv_tool_manifest req), P_list (cv_data_scopes_declared req),
                     opt_dict (cv_build_provenance req)]
                    (\<lambda>d. d\<lparr>agent_versions := agent_versions d @ [row]\<rparr>) db of
               Inl e \<Rightarrow> (Inl e, db)
             | Inr db1 \<Rightarrow>
                 let db2 = commit db1
                 in (Inr (JObj [(''version_id'', JStr (str_uuid env version_id)),
                                (''template_id'', JStr template_id),
                                (''release_status'', JStr ''draft''),
                                (''message'',
                                 JStr ''Version created. Evaluation will be triggered.'')]),
                     db2))"

definition get_version :: "env \<Rightarrow> string \<Rightarrow> uuid \<Rightarrow> session \<Rightarrow> (error + json) \<times> session" where
  "get_version env version_id tenant_id db =
     (case UUID env version_id of
        None \<Rightarrow> (Inl ValueError, db)
      | Some vid \<Rightarrow>
          (case execute (SELECT ''agent_versions'') [P_uuid vid] id db of
             Inl e \<Rightarrow> (Inl e, db)
           | Inr db1 \<Rightarrow>
               let result = fetchone (filter (\<lambda>r. v_version_id r = vid)
                                        (agent_versions (data db1)))
               in (case result of
                     None \<Rightarrow> (Inl (HTTPException 404 ''Version not found''), db1)
                   | Some r \<Rightarrow>
                       (Inr (JObj [(''version_id'', JStr (str_uuid env (v_version_id r))),
                                   (''template_id'', JStr (str_uuid env (v_template_id r))),
                                   (''version_label'', JStr (v_version_label r)),
                                   (''release_status'', JStr (v_release_status r)),
                                   (''model_bundle'', v_model_bundle r),
                                   (''prompt_bundle'', v_prompt_bundle r),
                                   (''created_at'', JStr (isoformat env (v_created_at r)))]),
                        db1))))"

text \<open>
  \<^verbatim>\<open>promote_version\<close>: two reads, then the update and its commit, then the insertion of
  the event and its commit. The payload bound to the \<^verbatim>\<open>INSERT\<close> of the event is a
  dictionary.
\<close>

definition promote_version :: "env \<Rightarrow> string \<Rightarrow> uuid \<Rightarrow> session \<Rightarrow> (error + json) \<times> session" where
  "promote_version env version_id tenant_id db =
     (case UUID env version_id of
        None \<Rightarrow> (Inl ValueError, db)
      | Some vid \<Rightarrow>
          (case execute (SELECT ''agent_versions'') [P_uuid vid] id db of
             Inl e \<Rightarrow> (Inl e, db)
           | Inr db1 \<Rightarrow>
               let current = fetchone (map v_release_status
                               (filter (\<lambda>r. v_version_id r = vid) (agent_versions (data db1))))
               in if current = None \<or> current \<noteq> Some ''candidate''
                  then (Inl (HTTPException 400 ''Version must be in 'candidate' status''), db1)
                  else
                    (case execute (SELECT ''evaluation_runs'') [P_uuid vid] id db1 of
                       Inl e \<Rightarrow> (Inl e, db1)
                     | Inr db2 \<Rightarrow>
                         let eval_results =
                               fetchone (take 1 (order_by_desc e_completed_at
                                 (filter (\<lambda>r. e_version_id r = vid \<and> e_status r = ''passed'')
                                    (evaluation_runs (data db2)))))
                         in if eval_results = None
                            then (Inl (HTTPException 400 ''No passing evaluation found''), db2)
                            else
                              (case execute (UPDATE ''agent_versions'') [P_uuid vid]
                                      (\<lambda>d. d\<lparr>agent_versions :=
                                         map (\<lambda>r. if v_version_id r = vid
                                                   then r\<lparr>v_release_status := ''approved''\<rparr>
                                                   else r)
                                             (agent_versions d)\<rparr>) db2 of
                                 Inl e \<Rightarrow> (Inl e, db2)
                               | Inr db3 \<Rightarrow>
                                   let db4 = commit db3;
                                       payload = [(''version_id'', JStr version_id),
                                                  (''from'', JStr ''candidate''),
                                                  (''to'', JStr ''approved'')];
                                       event = \<lparr>ev_tenant_id = tenant_id,
                                                ev_event_type = ''AgentVersionPromoted'',
                                                ev_actor_type = ''system'',
                                                ev_actor_id = tenant_id,
                                                ev_payload = JObj payload\<rparr>
                                   in (case execute (INSERT ''events'')
                                              [P_uuid tenant_id, P_dict payload]
                                              (\<lambda>d. d\<lparr>events := events d @ [event]\<rparr>) db4 of
                                         Inl e \<Rightarrow> (Inl e, db4)
                                       | Inr db5 \<Rightarrow>
                                           let db6 = commit db5
                                           in (Inr (JObj [(''version_id'', JStr version_id),
                                                          (''release_status'',
                                                           JStr ''approved'')]), db6))))))"

section \<open>Routes: instances\<close>

definition create_instance ::
  "env \<Rightarrow> CreateInstanceRequest \<Rightarrow> uuid \<Rightarrow> nat \<Rightarrow> uuid \<Rightarrow> session \<Rightarrow> (error + json) \<times> session" where
  "create_instance env req instance_id now tenant_id db =
     (case UUID env (ci_version_id req) of
        None \<Rightarrow> (Inl ValueError, db)
      | Some vid \<Rightarrow>
          (case UUID env (ci_policy_envelope_id req) of
             None \<Rightarrow> (Inl ValueError, db)
           | Some pid \<Rightarrow>
               let row = \<lparr>i_instance_id = instance_id, i_version_id = vid,
                          i_tenant_id = tenant_id, i_environment = ci_environment req,
                          i_runtime_target = ci_runtime_target req,
                          i_policy_envelope_id = pid, i_status = ''provisioning'',
                          i_created_at = now\<rparr>
               in case execute (INSERT ''agent_instances'')
                         [P_uuid instance_id, P_uuid vid, P_uuid tenant_id,
                          P_str (ci_environment req), opt_str (ci_runtime_target req),
                          P_uuid pid]
                         (\<lambda>d. d\<lparr>agent_instances := agent_instances d @ [row]\<rparr>) db of
                    Inl e \<Rightarrow> (Inl e, db)
                  | Inr db1 \<Rightarrow>
                      let db2 = commit db1
                      in (Inr (JObj [(''instance_id'', JStr (str_uuid env instance_id)),
                                     (''status'', JStr ''provisioning'')]), db2)))"

definition list_instances :: "env \<Rightarrow> uuid \<Rightarrow> session \<Rightarrow> (error + json) \<times> session" where
  "list_instances env tenant_id db =
     (case execute (SELECT ''agent_instances'') [] id db of
        Inl e \<Rightarrow> (Inl e, db)
      | Inr db1 \<Rightarrow>
          let joined = concat (map (\<lambda>i.
                         concat (map (\<lambda>v.
                           map (\<lambda>t. (i, v, t))
                             (filter (\<lambda>t. v_template_id v = t_template_id t)
                                (agent_templates (data db1))))
                           (filter (\<lambda>v. i_version_id i = v_version_id v)
                              (agent_versions (data db1)))))
                         (agent_instances (data db1)));
              results = order_by_desc (\<lambda>(i, v, t). i_created_at i) joined
          in (Inr (JObj [(''instances'',
                JArr (map (\<lambda>(i, v, t).
                             JObj [(''instance_id'', JStr (str_uuid env (i_instance_id i))),
                                   (''version_id'', JStr (str_uuid env (i_version_id i))),
                                   (''environment'', JStr (i_environment i)),
                                   (''status'', JStr (i_status i)),
                                   (''created_at'', JStr (isoformat env (i_created_at i))),
                                   (''version_label'', JStr (v_version_label v)),
                                   (''template_name'', JStr (t_name t))])
                          results))]), db1))"

definition update_instance ::
  "env \<Rightarrow> string \<Rightarrow> string \<Rightarrow> uuid \<Rightarrow> session \<Rightarrow> (error + json) \<times> session" where
  "update_instance env instance_id status tenant_id db =
     (case UUID env instance_id of
        None \<Rightarrow> (Inl ValueError, db)
      | Some iid \<Rightarrow>
          (case execute (UPDATE ''agent_instances'') [P_str status, P_uuid iid]
                  (\<lambda>d. d\<lparr>agent_instances :=
                     map (\<lambda>r. if i_instance_id r = iid then r\<lparr>i_status := status\<rparr> else r)
                         (agent_instances d)\<rparr>) db of
             Inl e \<Rightarrow> (Inl e, db)
           | Inr db1 \<Rightarrow>
               let db2 = commit db1
               in (Inr (JObj [(''instance_id'', JStr instance_id), (''status'', JStr status)]),
                   db2)))"

section \<open>Routes: policies\<close>

text \<open>\<^verbatim>\<open>create_policy\<close> binds \<^verbatim>\<open>allowed_tools\<close>, a dictionary, to a parameter of its \<^verbatim>\<open>INSERT\<close>.\<close>

definition create_policy ::
  "env \<Rightarrow> CreatePolicyRequest \<Rightarrow> uuid \<Rightarrow> nat \<Rightarrow> uuid \<Rightarrow> session \<Rightarrow> (error + json) \<times> session" where
  "create_policy env req policy_id now tenant_id db =
     (let row = \<lparr>p_policy_id = policy_id, p_tenant_id = tenant_id, p_name = cp_name req,
                 p_autonomy_tier = cp_autonomy_tier req,
                 p_allowed_tools = JObj (cp_allowed_tools req),
                 p_allowed_data_scopes = cp_allowed_data_scopes req,
                 p_rate_limits = map_option JObj (cp_rate_limits req),
                 p_cost_limits = map_option JObj (cp_cost_limits req),
                 p_guardrails = map_option JObj (cp_guardrails req), p_created_at = now\<rparr>
      in case execute (INSERT ''policy_envelopes'')
                [P_uuid policy_id, P_uuid tenant_id, P_str (cp_name req),
                 P_int (cp_autonomy_tier req), P_dict (cp_allowed_tools req),
                 P_list (cp_allowed_data_scopes req), opt_dict (cp_rate_limits req),
                 opt_dict (cp_cost_limits req), opt_dict (cp_guardrails req)]
                (\<lambda>d. d\<lparr>policy_envelopes := policy_envelopes d @ [row]\<rparr>) db of
           Inl e \<Rightarrow> (Inl e, db)
         | Inr db1 \<Rightarrow>
             let db2 = commit db1
             in (Inr (JObj [(''policy_id'', JStr (str_uuid env policy_id)),
                            (''name'', JStr (cp_name req))]), db2))"

definition list_policies :: "env \<Rightarrow> uuid \<Rightarrow> session \<Rightarrow> (error + json) \<times> session" where
  "list_policies env tenant_id db =
     (case execute (SELECT ''policy_envelopes'') [] id db of
        Inl e \<Rightarrow> (Inl e, db)
      | Inr db1 \<Rightarrow>
          let results = order_by_desc p_created_at (policy_envelopes (data db1))
          in (Inr (JObj [(''policies'',
                JArr (map (\<lambda>r. JObj [(''policy_id'', JStr (str_uuid env (p_policy_id r))),
                                       (''name'', JStr (p_name r)),
                                       (''autonomy_tier'', JNum (p_autonomy_tier r)),
                                       (''created_at'', JStr (isoformat env (p_created_at r)))])
                          results))]), db1))"

definition get_policy :: "env \<Rightarrow> string \<Rightarrow> uuid \<Rightarrow> session \<Rightarrow> (error + json) \<times> session" where
  "get_policy env policy_id tenant_id db =
     (case UUID env policy_id of
        None \<Rightarrow> (Inl ValueError, db)
      | Some pid \<Rightarrow>
          (case execute (SELECT ''policy_envelopes'') [P_uuid pid] id db of
             Inl e \<Rightarrow> (Inl e, db)
           | Inr db1 \<Rightarrow>
               let result = fetchone (filter (\<lambda>r. p_policy_id r = pid)
                                        (policy_envelopes (data db1)))
               in (case result of
                     None \<Rightarrow> (Inl (HTTPException 404 ''Policy not found''), db1)
                   | Some r \<Rightarrow>
                       (Inr (JObj [(''policy_id'', JStr (str_uuid env (p_policy_id r))),
                                   (''name'', JStr (p_name r)),
                                   (''autonomy_tier'', JNum (p_autonomy_tier r)),
                                   (''allowed_tools'', p_allowed_tools r),
                                   (''allowed_data_scopes'',
                                    JArr (map JStr (p_allowed_data_scopes r))),
                                   (''rate_limits'', json_opt (p_rate_limits r)),
                                   (''cost_limits'', json_opt (p_cost_limits r)),
                                   (''guardrails'', json_opt (p_guardrails r)),
                                   (''created_at'', JStr (isoformat env (p_created_at r)))]),
                        db1))))"

section \<open>Health check\<close>

definition health :: json where
  "health = JObj [(''status'', JStr ''ok''), (''service'', JStr ''control-plane'')]"

section \<open>The application\<close>

text \<open>
  A request names its route and carries the arguments of the handler; a route that
  inserts a row also carries the identifier and the time the row gets. Every route but
  \<^verbatim>\<open>/health\<close> depends on \<^verbatim>\<open>get_current_tenant\<close>.
\<close>

datatype request =
    CreateTemplate CreateTemplateRequest uuid nat
  | ListTemplates
  | CreateVersion string CreateVersionRequest uuid nat
  | GetVersion string
  | PromoteVersion string
  | CreateInstance CreateInstanceRequest uuid nat
  | ListInstances
  | UpdateInstance string string
  | CreatePolicy CreatePolicyRequest uuid nat
  | ListPolicies
  | GetPolicy string
  | Health

fun handler :: "env \<Rightarrow> request \<Rightarrow> uuid \<Rightarrow> session \<Rightarrow> (error + json) \<times> session" where
  "handler env (CreateTemplate req template_id now) = create_template env req template_id now"
| "handler env ListTemplates = list_templates env"
| "handler env (CreateVersion template_id req version_id now) =
     create_version env template_id req version_id now"
| "handler env (GetVersion version_id) = get_version env version_id"
| "handler env (PromoteVersion version_id) = promote_version env version_id"
| "handler env (CreateInstance req instance_id now) = create_instance env req instance_id now"
| "handler env ListInstances = list_instances env"
| "handler env (UpdateInstance instance_id status) = update_instance env instance_id status"
| "handler env (CreatePolicy req policy_id now) = create_policy env req policy_id now"
| "handler env ListPolicies = list_policies env"
| "handler env (GetPolicy policy_id) = get_policy env policy_id"
| "handler env Health = (\<lambda>tenant_id db. (Inr health, db))"

definition app :: "env \<Rightarrow> string option \<Rightarrow> request \<Rightarrow> session \<Rightarrow> (error + json) \<times> session" where
  "app env authorization rq db =
     (if rq = Health then (Inr health, db)
      else authenticated env authorization (handler env rq) db)"

section \<open>Vocabulary of the properties\<close>

text \<open>The two failures of the gates of \<^verbatim>\<open>promote_version\<close>, and the kinds of a failure.\<close>

definition PreconditionFailed :: error where
  "PreconditionFailed = HTTPException 400 ''Version must be in 'candidate' status''"

definition GateFailed :: error where
  "GateFailed = HTTPException 400 ''No passing evaluation found''"

definition Unauthenticated :: "error \<Rightarrow> bool" where
  "Unauthenticated e = (case e of HTTPException code detail \<Rightarrow> code = 401 | _ \<Rightarrow> False)"

definition NotFound :: "error \<Rightarrow> bool" where
  "NotFound e = (case e of HTTPException code detail \<Rightarrow> code = 404 | _ \<Rightarrow> False)"

text \<open>
  A credential with no tenant in it: the header is missing, or is not a bearer header,
  or its token does not decode, or the decoded claims have no \<^verbatim>\<open>tenant_id\<close> (or an
  empty one).
\<close>

definition no_tenant :: "env \<Rightarrow> string option \<Rightarrow> bool" where
  "no_tenant env authorization =
     (case authorization of
        None \<Rightarrow> True
      | Some a \<Rightarrow>
          \<not> startswith a ''Bearer '' \<or>
          (case jwt_decode env (split_on CHR '' '' a ! 1) of
             Inl e \<Rightarrow> True
           | Inr payload \<Rightarrow> \<not> truthy (payload ''tenant_id'')))"

text \<open>The release status the database holds for a version id, if it holds a row for it.\<close>

definition release_status :: "database \<Rightarrow> uuid \<Rightarrow> string option" where
  "release_status d vid =
     fetchone (map v_release_status (filter (\<lambda>r. v_version_id r = vid) (agent_versions d)))"

definition passing_evaluation :: "database \<Rightarrow> uuid \<Rightarrow> bool" where
  "passing_evaluation d vid =
     (filter (\<lambda>r. e_version_id r = vid \<and> e_status r = ''passed'') (evaluation_runs d) \<noteq> [])"

text \<open>
  The version an event is about: the \<^verbatim>\<open>version_id\<close> of its payload, read as a UUID.
  \<open>promoted_events\<close> are the \<^verbatim>\<open>AgentVersionPromoted\<close> events about one version.
\<close>

definition event_version :: "env \<Rightarrow> event_row \<Rightarrow> uuid option" where
  "event_version env e =
     (case ev_payload e of
        JObj kvs \<Rightarrow> (case map_of kvs ''version_id'' of Some (JStr s) \<Rightarrow> UUID env s | _ \<Rightarrow> None)
      | _ \<Rightarrow> None)"

definition promoted_events :: "env \<Rightarrow> database \<Rightarrow> uuid \<Rightarrow> event_row list" where
  "promoted_events env d vid =
     filter (\<lambda>e. ev_event_type e = ''AgentVersionPromoted'' \<and> event_version env e = Some vid)
       (events d)"

text \<open>The database after the \<^verbatim>\<open>UPDATE\<close> of \<^verbatim>\<open>promote_version\<close>.\<close>

definition promoted :: "uuid \<Rightarrow> database \<Rightarrow> database" where
  "promoted vid d = d\<lparr>agent_versions :=
      map (\<lambda>r. if v_version_id r = vid then r\<lparr>v_release_status := ''approved''\<rparr> else r)
        (agent_versions d)\<rparr>"

text \<open>
  A template id that names a template of the tenant: it is a UUID, and the table holds
  a template with that id and that tenant.
\<close>

definition known_template :: "env \<Rightarrow> database \<Rightarrow> uuid \<Rightarrow> string \<Rightarrow> bool" where
  "known_template env d tenant_id template_id =
     (case UUID env template_id of
        None \<Rightarrow> False
      | Some tid \<Rightarrow>
          filter (\<lambda>t. t_template_id t = tid \<and> t_tenant_id t = tenant_id) (agent_templates d)
            \<noteq> [])"

text \<open>The routes that get or list.\<close>

fun is_read :: "request \<Rightarrow> bool" where
  "is_read ListTemplates = True"
| "is_read (GetVersion version_id) = True"
| "is_read ListInstances = True"
| "is_read ListPolicies = True"
| "is_read (GetPolicy policy_id) = True"
| "is_read rq = False"

text \<open>
  The \<^verbatim>\<open>HTTPException\<close>s whose detail is a text written in the source and reaches the
  caller as it is written.
\<close>

definition fixed_failures :: "error list" where
  "fixed_failures =
     [HTTPException 401 ''Missing or invalid authorization'',
      HTTPException 404 ''Version not found'',
      HTTPException 400 ''Version must be in 'candidate' status'',
      HTTPException 400 ''No passing evaluation found'',
      HTTPException 404 ''Policy not found'']"

section \<open>A small deployment to run the handlers on\<close>

text \<open>
  Two tenants, whose tokens are \<^verbatim>\<open>tok-1\<close> and \<^verbatim>\<open>tok-2\<close>; a token \<^verbatim>\<open>tok-0\<close> with no
  \<^verbatim>\<open>tenant_id\<close> claim; any other token does not decode. Identifiers are written as
  UUID strings that differ in their last two digits. The only \<^verbatim>\<open>tenant_id\<close> claims of
  these tokens are UUIDs, with which \<^verbatim>\<open>SET LOCAL\<close> sets the variable and leaves the
  tables alone.
\<close>

definition ex_uuid :: "string \<Rightarrow> uuid option" where
  "ex_uuid s =
     (if s = ''00000000-0000-0000-0000-000000000001'' then Some 1
      else if s = ''00000000-0000-0000-0000-000000000002'' then Some 2
      else if s = ''00000000-0000-0000-0000-0000000000a1'' then Some 161
      else if s = ''00000000-0000-0000-0000-0000000000b1'' then Some 177
      else if s = ''00000000-0000-0000-0000-0000000000c1'' then Some 193
      else None)"

definition ex_str :: "uuid \<Rightarrow> string" where
  "ex_str u =
     (if u = 1 then ''00000000-0000-0000-0000-000000000001''
      else if u = 2 then ''00000000-0000-0000-0000-000000000002''
      else if u = 161 then ''00000000-0000-0000-0000-0000000000a1''
      else if u = 177 then ''00000000-0000-0000-0000-0000000000b1''
      else if u = 193 then ''00000000-0000-0000-0000-0000000000c1''
      else [])"

definition ex_decode :: "string \<Rightarrow> string + (string \<rightharpoonup> json)" where
  "ex_decode token =
     (if token = ''tok-1''
      then Inr [''tenant_id'' \<mapsto> JStr ''00000000-0000-0000-0000-000000000001'']
      else if token = ''tok-2''
      then Inr [''tenant_id'' \<mapsto> JStr ''00000000-0000-0000-0000-000000000002'']
      else if token = ''tok-0'' then Inr [''sub'' \<mapsto> JStr ''nobody'']
      else Inl ''Not enough segments'')"

definition ex_env :: env where
  "ex_env = \<lparr>jwt_decode = ex_decode, UUID = ex_uuid, str_uuid = ex_str,
             isoformat = (\<lambda>t. ''2024-01-01T00:00:00''),
             set_local_tenant = (\<lambda>claim d. Inr d)\<rparr>"

definition empty_database :: database where
  "empty_database = \<lparr>agent_templates = [], agent_versions = [], agent_instances = [],
                     policy_envelopes = [], evaluation_runs = [], events = []\<rparr>"

definition new_session :: "database \<Rightarrow> session" where
  "new_session d = \<lparr>data = d, app_current_tenant = None, executed = [], committed = []\<rparr>"

definition ex_version :: "string \<Rightarrow> version_row" where
  "ex_version st =
     \<lparr>v_version_id = 161, v_template_id = 177, v_tenant_id = 1, v_version_label = ''v1'',
      v_artifact_hash = ''sha256:00'', v_model_bundle = JObj [], v_prompt_bundle = JObj [],
      v_tool_manifest = JObj [], v_data_scopes_declared = [], v_build_provenance = None,
      v_release_status = st, v_created_at = 10\<rparr>"

definition ex_run :: "string \<Rightarrow> evaluation_row" where
  "ex_run st = \<lparr>e_version_id = 161, e_status = st, e_summary_scores = JObj [],
                e_completed_at = 20\<rparr>"

definition ex_instance :: "string \<Rightarrow> instance_row" where
  "ex_instance st =
     \<lparr>i_instance_id = 193, i_version_id = 161, i_tenant_id = 1, i_environment = ''prod'',
      i_runtime_target = None, i_policy_envelope_id = 177, i_status = st, i_created_at = 30\<rparr>"

definition ex_template :: template_row where
  "ex_template =
     \<lparr>t_template_id = 177, t_tenant_id = 1, t_name = ''support-bot'', t_description = None,
      t_owner_org_id = None, t_tags = [''prod''], t_created_at = 10\<rparr>"

definition ex_template_request :: CreateTemplateRequest where
  "ex_template_request =
     \<lparr>ct_name = ''support-bot'', ct_description = None, ct_owner_org_id = None,
      ct_tags = [''prod'']\<rparr>"

definition ex_request :: CreateVersionRequest where
  "ex_request =
     \<lparr>cv_version_label = ''v1'', cv_artifact_hash = ''sha256:00'', cv_model_bundle = [],
      cv_prompt_bundle = [], cv_tool_manifest = [], cv_data_scopes_declared = [],
      cv_build_provenance = None\<rparr>"

definition ex_tid :: string where
  "ex_tid = ''00000000-0000-0000-0000-0000000000b1''"

definition ex_vid :: string where
  "ex_vid = ''00000000-0000-0000-0000-0000000000a1''"

definition ex_iid :: string where
  "ex_iid = ''00000000-0000-0000-0000-0000000000c1''"

text \<open>
  A session on a database with one version of the given release status and one
  evaluation run for each of the given statuses, and one on a database with one
  instance of the given status.
\<close>

definition ex_versions :: "string \<Rightarrow> string list \<Rightarrow> session" where
  "ex_versions st runs =
     new_session (empty_database\<lparr>agent_versions := [ex_version st],
                                 evaluation_runs := map ex_run runs\<rparr>)"

definition ex_instances :: "string \<Rightarrow> session" where
  "ex_instances st = new_session (empty_database\<lparr>agent_instances := [ex_instance st]\<rparr>)"

text \<open>
  The session of the request in which the first tenant creates a template, and the
  session of the request in which it asks for the promotion of the candidate version.
\<close>

definition ex_created :: session where
  "ex_created = snd (app ex_env (Some ''Bearer tok-1'') (CreateTemplate ex_template_request 177 10)
                       (new_session empty_database))"

definition ex_promotion :: "(error + json) \<times> session" where
  "ex_promotion = app ex_env (Some ''Bearer tok-1'') (PromoteVersion ex_vid)
                    (ex_versions ''candidate'' [''passed''])"

section \<open>Facts about the store operations\<close>

lemma fetchone_None: "fetchone xs = None \<longleftrightarrow> xs = []"
  by (cases xs) (simp_all add: fetchone_def)

lemma order_by_desc_Nil: "order_by_desc key rows = [] \<longleftrightarrow> rows = []"
proof -
  have "length (order_by_desc key rows) = length rows"
    by (simp add: order_by_desc_def)
  then show ?thesis by (metis length_0_conv)
qed

lemma limit_one_None:
  "fetchone (take (Suc 0) (order_by_desc key rows)) = None \<longleftrightarrow> rows = []"
  by (simp add: fetchone_None order_by_desc_Nil)

lemma limit_one_Some:
  "(\<exists>y. fetchone (take (Suc 0) (order_by_desc key rows)) = Some y) \<longleftrightarrow> rows \<noteq> []"
  using limit_one_None [of key rows] by auto

lemma adapts_opt_str: "adapts (opt_str x)"
  by (cases x) (simp_all add: opt_str_def)

text \<open>A statement with a dictionary among its bound values raises and does not run.\<close>

lemma execute_dict:
  "P_dict d \<in> set params \<Longrightarrow> execute st params f db = Inl (SQLAlchemyError ProgrammingError)"
proof -
  assume "P_dict d \<in> set params"
  moreover have "\<not> adapts (P_dict d)" by simp
  ultimately have "\<not> list_all adapts params"
    unfolding list_all_iff by blast
  then show ?thesis by (simp add: execute_def)
qed

lemma execute_select:
  "execute (SELECT t) [P_uuid u] id db = Inr (db\<lparr>executed := executed db @ [SELECT t]\<rparr>)"
  "execute (SELECT t) [] id db = Inr (db\<lparr>executed := executed db @ [SELECT t]\<rparr>)"
  by (simp_all add: execute_def)

lemma ex_uuid_simps:
  "UUID ex_env ex_vid = Some 161" "UUID ex_env ex_tid = Some 177" "UUID ex_env ex_iid = Some 193"
  by (simp_all add: ex_env_def ex_uuid_def ex_vid_def ex_tid_def ex_iid_def)

section \<open>Authentication\<close>

lemma split_on_not_Nil: "split_on c xs \<noteq> []"
  by (induction xs) (auto split: list.splits)

lemma split_on_Cons:
  "x \<noteq> c \<Longrightarrow> split_on c (x # xs) = (x # hd (split_on c xs)) # tl (split_on c xs)"
  using split_on_not_Nil [of c xs] by (cases "split_on c xs") simp_all

text \<open>After the prefix \<^verbatim>\<open>Bearer\<close> and its space, \<^verbatim>\<open>split(" ")[1]\<close> is in range.\<close>

lemma split_on_bearer:
  assumes "startswith a ''Bearer ''"
  shows "1 < length (split_on CHR '' '' a)"
proof -
  from assms have "take (length ''Bearer '') a = ''Bearer ''"
    by (simp only: startswith_def)
  then have "a = ''Bearer '' @ drop (length ''Bearer '') a"
    by (metis append_take_drop_id)
  then obtain b where a: "a = ''Bearer '' @ b" ..
  have "split_on CHR '' '' a = ''Bearer'' # split_on CHR '' '' b"
    unfolding a by (simp add: split_on_Cons)
  with split_on_not_Nil [of "CHR '' ''" b] show ?thesis
    by (cases "split_on CHR '' '' b") simp_all
qed

lemma get_current_tenant_rejects:
  assumes "no_tenant env authorization"
  shows "\<exists>detail. get_current_tenant env authorization db = (Inl (HTTPException 401 detail), db)"
proof (cases authorization)
  case None
  then show ?thesis by (simp add: get_current_tenant_def)
next
  case (Some a)
  show ?thesis
  proof (cases "startswith a ''Bearer ''")
    case False
    with Some show ?thesis by (simp add: get_current_tenant_def)
  next
    case True
    then have len: "\<not> length (split_on CHR '' '' a) \<le> 1" and ne: "a \<noteq> []"
      using split_on_bearer [OF True] by (auto simp: startswith_def)
    from assms Some True len ne show ?thesis
      by (auto simp: get_current_tenant_def no_tenant_def split: sum.splits)
  qed
qed

lemma ex_decode_simps:
  "jwt_decode ex_env ''zzz'' = Inl ''Not enough segments''"
  "jwt_decode ex_env ''tok-0'' = Inr [''sub'' \<mapsto> JStr ''nobody'']"
  "jwt_decode ex_env ''tok-1'' = Inr [''tenant_id'' \<mapsto> JStr ''00000000-0000-0000-0000-000000000001'']"
  "jwt_decode ex_env ''tok-2'' = Inr [''tenant_id'' \<mapsto> JStr ''00000000-0000-0000-0000-000000000002'']"
  by (simp_all add: ex_env_def ex_decode_def)

lemma ex_no_tenant:
  "no_tenant ex_env None"
  "no_tenant ex_env (Some ''Basic dXNlcg=='')"
  "no_tenant ex_env (Some ''Bearer zzz'')"
  "no_tenant ex_env (Some ''Bearer tok-0'')"
  by (simp_all add: no_tenant_def startswith_def ex_decode_simps)

text \<open>
  C5. A request to any route but \<^verbatim>\<open>/health\<close> whose credential has no tenant in it is
  answered with a 401 raised by \<^verbatim>\<open>get_current_tenant\<close>, and the session is returned as
  it was received: no statement was executed on it and the handler did not run.
\<close>

theorem unauthenticated_before_store:
  assumes "rq \<noteq> Health"
    and "no_tenant env authorization"
  shows "\<exists>e. Unauthenticated e \<and>
             get_current_tenant env authorization db = (Inl e, db) \<and>
             app env authorization rq db = (Inl e, db) \<and>
             executed (snd (app env authorization rq db)) = executed db \<and>
             data (snd (app env authorization rq db)) = data db"
proof -
  from get_current_tenant_rejects [OF assms(2)]
  obtain detail where "get_current_tenant env authorization db = (Inl (HTTPException 401 detail), db)"
    by blast
  with assms(1) show ?thesis
    by (simp add: app_def authenticated_def Unauthenticated_def)
qed

theorem unauthenticated_before_store_witness:
  "PromoteVersion ex_vid \<noteq> Health \<and>
   no_tenant ex_env None \<and>
   app ex_env None (PromoteVersion ex_vid) (ex_versions ''candidate'' [''passed''])
     = (Inl (HTTPException 401 ''Missing or invalid authorization''),
        ex_versions ''candidate'' [''passed'']) \<and>
   no_tenant ex_env (Some ''Basic dXNlcg=='') \<and>
   app ex_env (Some ''Basic dXNlcg=='') (PromoteVersion ex_vid) (ex_versions ''candidate'' [''passed''])
     = (Inl (HTTPException 401 ''Missing or invalid authorization''),
        ex_versions ''candidate'' [''passed'']) \<and>
   no_tenant ex_env (Some ''Bearer zzz'') \<and>
   app ex_env (Some ''Bearer zzz'') (PromoteVersion ex_vid) (ex_versions ''candidate'' [''passed''])
     = (Inl (HTTPException 401 ''Invalid token: Not enough segments''),
        ex_versions ''candidate'' [''passed'']) \<and>
   no_tenant ex_env (Some ''Bearer tok-0'') \<and>
   app ex_env (Some ''Bearer tok-0'') (PromoteVersion ex_vid) (ex_versions ''candidate'' [''passed''])
     = (Inl (HTTPException 401 ''Invalid token: 401: Token missing tenant_id''),
        ex_versions ''candidate'' [''passed''])"
proof -
  let ?db = "ex_versions ''candidate'' [''passed'']"
  have h0: "PromoteVersion ex_vid \<noteq> Health" by simp
  have g1: "get_current_tenant ex_env None ?db
     = (Inl (HTTPException 401 ''Missing or invalid authorization''), ?db)"
    by (simp add: get_current_tenant_def)
  have g2: "get_current_tenant ex_env (Some ''Basic dXNlcg=='') ?db
     = (Inl (HTTPException 401 ''Missing or invalid authorization''), ?db)"
    by (simp add: get_current_tenant_def startswith_def)
  have g3: "get_current_tenant ex_env (Some ''Bearer zzz'') ?db
     = (Inl (HTTPException 401 ''Invalid token: Not enough segments''), ?db)"
    by (simp add: get_current_tenant_def startswith_def ex_decode_simps)
  have g4: "get_current_tenant ex_env (Some ''Bearer tok-0'') ?db
     = (Inl (HTTPException 401 ''Invalid token: 401: Token missing tenant_id''), ?db)"
    by (simp add: get_current_tenant_def startswith_def ex_decode_simps)
  from unauthenticated_before_store [OF h0 ex_no_tenant(1), of ?db]
    unauthenticated_before_store [OF h0 ex_no_tenant(2), of ?db]
    unauthenticated_before_store [OF h0 ex_no_tenant(3), of ?db]
    unauthenticated_before_store [OF h0 ex_no_tenant(4), of ?db]
    g1 g2 g3 g4 ex_no_tenant
  show ?thesis by auto
qed

lemma ex_auth:
  "get_current_tenant ex_env (Some ''Bearer tok-1'') db
     = (Inr 1, commit (db\<lparr>app_current_tenant := Some (JStr ''00000000-0000-0000-0000-000000000001''),
                          executed := executed db @ [SET_LOCAL (JStr ''00000000-0000-0000-0000-000000000001'')]\<rparr>))"
  "get_current_tenant ex_env (Some ''Bearer tok-2'') db
     = (Inr 2, commit (db\<lparr>app_current_tenant := Some (JStr ''00000000-0000-0000-0000-000000000002''),
                          executed := executed db @ [SET_LOCAL (JStr ''00000000-0000-0000-0000-000000000002'')]\<rparr>))"
  by (simp_all add: get_current_tenant_def startswith_def ex_decode_simps json_opt_def Let_def)
     (simp_all add: ex_env_def ex_uuid_def json_opt_def)

section \<open>Promotion\<close>

text \<open>
  The three ways through \<^verbatim>\<open>promote_version\<close> for a version id that is a UUID. A call
  that passes both gates runs the \<^verbatim>\<open>UPDATE\<close> and commits it, and then raises at the
  \<^verbatim>\<open>INSERT\<close> of the event, to which the payload, a dictionary, is bound. So no call
  returns.
\<close>

lemma promote_version_not_candidate:
  assumes "UUID env version_id = Some vid"
    and "release_status (data db) vid \<noteq> Some ''candidate''"
  shows "promote_version env version_id tenant_id db
           = (Inl PreconditionFailed, db\<lparr>executed := executed db @ [SELECT ''agent_versions'']\<rparr>)"
  using assms
  by (auto simp: promote_version_def release_status_def PreconditionFailed_def execute_select Let_def)

lemma promote_version_no_evaluation:
  assumes "UUID env version_id = Some vid"
    and "release_status (data db) vid = Some ''candidate''"
    and "\<not> passing_evaluation (data db) vid"
  shows "promote_version env version_id tenant_id db
           = (Inl GateFailed,
              db\<lparr>executed := executed db @ [SELECT ''agent_versions'', SELECT ''evaluation_runs'']\<rparr>)"
  using assms
  by (simp add: promote_version_def release_status_def passing_evaluation_def GateFailed_def
      execute_select Let_def limit_one_None limit_one_Some)

lemma promote_version_passes_gates:
  assumes "UUID env version_id = Some vid"
    and "release_status (data db) vid = Some ''candidate''"
    and "passing_evaluation (data db) vid"
  shows "promote_version env version_id tenant_id db
           = (Inl (SQLAlchemyError ProgrammingError),
              db\<lparr>data := promoted vid (data db),
                 app_current_tenant := None,
                 executed := executed db @ [SELECT ''agent_versions'', SELECT ''evaluation_runs'',
                               UPDATE ''agent_versions'', COMMIT],
                 committed := committed db @ [promoted vid (data db)]\<rparr>)"
  using assms
  by (simp add: promote_version_def release_status_def passing_evaluation_def promoted_def
      execute_def commit_def Let_def limit_one_None limit_one_Some)

lemma promote_version_never_returns:
  "fst (promote_version env version_id tenant_id db) \<noteq> Inr r"
  by (simp add: promote_version_def execute_def Let_def split: option.splits)

lemma filter_promoted:
  "filter (\<lambda>r. v_version_id r = vid)
     (map (\<lambda>r. if v_version_id r = vid then r\<lparr>v_release_status := ''approved''\<rparr> else r) xs)
   = map (\<lambda>r. r\<lparr>v_release_status := ''approved''\<rparr>) (filter (\<lambda>r. v_version_id r = vid) xs)"
  by (induction xs) auto

lemma release_status_promoted:
  assumes "release_status d vid = Some st"
  shows "release_status (promoted vid d) vid = Some ''approved''"
proof -
  from assms obtain r rs where "filter (\<lambda>r. v_version_id r = vid) (agent_versions d) = r # rs"
    by (cases "filter (\<lambda>r. v_version_id r = vid) (agent_versions d)")
       (simp_all add: release_status_def fetchone_def)
  then show ?thesis
    by (simp add: release_status_def fetchone_def promoted_def filter_promoted)
qed

lemma events_promoted: "events (promoted vid d) = events d"
  by (simp add: promoted_def)

lemma ex_versions_simps:
  "release_status (data (ex_versions st runs)) 161 = Some st"
  "passing_evaluation (data (ex_versions st runs)) 161 \<longleftrightarrow> ''passed'' \<in> set runs"
  "events (data (ex_versions st runs)) = []"
  "committed (ex_versions st runs) = []"
  "executed (ex_versions st runs) = []"
  by (auto simp: ex_versions_def new_session_def empty_database_def release_status_def
      passing_evaluation_def fetchone_def ex_version_def ex_run_def filter_empty_conv)

lemma ex_promote:
  "promote_version ex_env ex_vid t (ex_versions ''candidate'' [''passed''])
     = (Inl (SQLAlchemyError ProgrammingError),
        (ex_versions ''candidate'' [''passed''])
          \<lparr>data := promoted 161 (data (ex_versions ''candidate'' [''passed''])),
           app_current_tenant := None,
           executed := [SELECT ''agent_versions'', SELECT ''evaluation_runs'',
                        UPDATE ''agent_versions'', COMMIT],
           committed := [promoted 161 (data (ex_versions ''candidate'' [''passed'']))]\<rparr>)"
proof -
  have c: "release_status (data (ex_versions ''candidate'' [''passed''])) 161 = Some ''candidate''"
    and p: "passing_evaluation (data (ex_versions ''candidate'' [''passed''])) 161"
    by (simp_all add: ex_versions_simps)
  show ?thesis
    by (simp add: promote_version_passes_gates [OF ex_uuid_simps(1) c p] ex_versions_simps)
qed

text \<open>
  C1 at a concrete input. The version is a candidate and has a passed evaluation run, so
  both gates are open; the call nevertheless fails, with the \<^verbatim>\<open>ProgrammingError\<close> of the
  \<^verbatim>\<open>INSERT\<close> of the event, and the release status it leaves behind, durably, is
  \<^verbatim>\<open>approved\<close> and not the \<^verbatim>\<open>candidate\<close> it found.
\<close>

theorem promote_version_candidate_fails:
  "release_status (data (ex_versions ''candidate'' [''passed''])) 161 = Some ''candidate'' \<and>
   passing_evaluation (data (ex_versions ''candidate'' [''passed''])) 161 \<and>
   fst (promote_version ex_env ex_vid 1 (ex_versions ''candidate'' [''passed'']))
     = Inl (SQLAlchemyError ProgrammingError) \<and>
   release_status (data (snd (promote_version ex_env ex_vid 1 (ex_versions ''candidate'' [''passed'']))))
     161 = Some ''approved'' \<and>
   release_status
     (last (committed (snd (promote_version ex_env ex_vid 1 (ex_versions ''candidate'' [''passed''])))))
     161 = Some ''approved''"
  by (simp add: ex_promote ex_versions_simps release_status_promoted [OF ex_versions_simps(1)])

text \<open>
  C3 at a concrete input. On the same call the statements that run are the two reads,
  the \<^verbatim>\<open>UPDATE\<close> and one \<^verbatim>\<open>COMMIT\<close>; the \<^verbatim>\<open>INSERT\<close> of the event does not run. The one
  database the call makes durable holds the version as \<^verbatim>\<open>approved\<close> and no event row.
\<close>

theorem promote_version_commits_update_alone:
  "executed (snd (promote_version ex_env ex_vid 1 (ex_versions ''candidate'' [''passed''])))
     = [SELECT ''agent_versions'', SELECT ''evaluation_runs'', UPDATE ''agent_versions'', COMMIT] \<and>
   length (committed (snd (promote_version ex_env ex_vid 1 (ex_versions ''candidate'' [''passed''])))) = 1 \<and>
   release_status
     (committed (snd (promote_version ex_env ex_vid 1 (ex_versions ''candidate'' [''passed'']))) ! 0)
     161 = Some ''approved'' \<and>
   events
     (committed (snd (promote_version ex_env ex_vid 1 (ex_versions ''candidate'' [''passed'']))) ! 0)
     = []"
  by (simp add: ex_promote ex_versions_simps release_status_promoted [OF ex_versions_simps(1)]
      events_promoted)

text \<open>
  C4 at a concrete input. The first tenant asks for the promotion of a candidate version
  that has a passed evaluation run. The request fails at the \<^verbatim>\<open>INSERT\<close> of the event:
  the database it leaves behind holds the version as \<^verbatim>\<open>approved\<close> and holds no
  \<^verbatim>\<open>AgentVersionPromoted\<close> event about it, nor any other event.
\<close>

theorem promotion_records_no_event:
  "fst ex_promotion = Inl (SQLAlchemyError ProgrammingError) \<and>
   release_status (last (committed (snd ex_promotion))) 161 = Some ''approved'' \<and>
   promoted_events ex_env (last (committed (snd ex_promotion))) 161 = [] \<and>
   events (last (committed (snd ex_promotion))) = [] \<and>
   data (snd ex_promotion) = last (committed (snd ex_promotion))"
  by (simp add: ex_promotion_def app_def authenticated_def ex_auth ex_promote [simplified]
      promote_version_passes_gates [OF ex_uuid_simps(1)] commit_def ex_versions_simps
      release_status_promoted [OF ex_versions_simps(1)] events_promoted promoted_events_def)

section \<open>Instance status\<close>

lemma ex_instances_simps:
  "agent_instances (data (ex_instances st)) = [ex_instance st]"
  "i_instance_id (ex_instance st) = 193"
  "(ex_instance st)\<lparr>i_status := st'\<rparr> = ex_instance st'"
  "committed (ex_instances st) = []"
  by (simp_all add: ex_instances_def new_session_def ex_instance_def)

lemma update_instance_runs:
  assumes "UUID env instance_id = Some iid"
  shows "update_instance env instance_id status tenant_id db
           = (Inr (JObj [(''instance_id'', JStr instance_id), (''status'', JStr status)]),
              commit (db\<lparr>data := (data db)\<lparr>agent_instances :=
                            map (\<lambda>r. if i_instance_id r = iid then r\<lparr>i_status := status\<rparr> else r)
                              (agent_instances (data db))\<rparr>,
                         executed := executed db @ [UPDATE ''agent_instances'']\<rparr>))"
  using assms by (simp add: update_instance_def execute_def Let_def)

text \<open>
  C8. \<^verbatim>\<open>update_instance\<close> looks at no status: for an instance the table holds, and any
  requested status, it returns the success response and the row of the instance now
  has the requested status, as has every row with that instance id. The update is
  the one statement the handler sends, and the tables with the new status are what its
  commit makes durable.
\<close>

theorem update_instance_unconditional:
  assumes "UUID env instance_id = Some iid"
    and "r \<in> set (agent_instances (data db))"
    and "i_instance_id r = iid"
  shows "fst (update_instance env instance_id status tenant_id db)
           = Inr (JObj [(''instance_id'', JStr instance_id), (''status'', JStr status)]) \<and>
         r\<lparr>i_status := status\<rparr>
           \<in> set (agent_instances (data (snd (update_instance env instance_id status tenant_id db)))) \<and>
         (\<forall>r' \<in> set (agent_instances (data (snd (update_instance env instance_id status tenant_id db)))).
            i_instance_id r' = iid \<longrightarrow> i_status r' = status) \<and>
         executed (snd (update_instance env instance_id status tenant_id db))
           = executed db @ [UPDATE ''agent_instances'', COMMIT] \<and>
         committed (snd (update_instance env instance_id status tenant_id db))
           = committed db @ [data (snd (update_instance env instance_id status tenant_id db))]"
  using assms
  by (auto simp: update_instance_runs commit_def intro!: rev_image_eqI)

theorem update_instance_unconditional_witness:
  "UUID ex_env ex_iid = Some 193 \<and>
   ex_instance ''retired'' \<in> set (agent_instances (data (ex_instances ''retired''))) \<and>
   i_instance_id (ex_instance ''retired'') = 193 \<and>
   fst (update_instance ex_env ex_iid ''active'' 2 (ex_instances ''retired''))
     = Inr (JObj [(''instance_id'', JStr ex_iid), (''status'', JStr ''active'')]) \<and>
   ex_instance ''active''
     \<in> set (agent_instances (data (snd (update_instance ex_env ex_iid ''active'' 2
               (ex_instances ''retired''))))) \<and>
   map (\<lambda>d. map i_status (agent_instances d))
     (committed (snd (update_instance ex_env ex_iid ''active'' 2 (ex_instances ''retired''))))
     = [[''active'']]"
proof -
  have h2: "ex_instance ''retired'' \<in> set (agent_instances (data (ex_instances ''retired'')))"
    by (simp add: ex_instances_simps)
  have d: "agent_instances (data (snd (update_instance ex_env ex_iid ''active'' 2
               (ex_instances ''retired'')))) = [ex_instance ''active'']"
    by (simp add: update_instance_runs [OF ex_uuid_simps(3)] commit_def ex_instances_simps)
  from update_instance_unconditional [OF ex_uuid_simps(3) h2 ex_instances_simps(2), of "''active''" 2]
  have "fst (update_instance ex_env ex_iid ''active'' 2 (ex_instances ''retired''))
          = Inr (JObj [(''instance_id'', JStr ex_iid), (''status'', JStr ''active'')])"
    and "committed (snd (update_instance ex_env ex_iid ''active'' 2 (ex_instances ''retired'')))
          = committed (ex_instances ''retired'')
            @ [data (snd (update_instance ex_env ex_iid ''active'' 2 (ex_instances ''retired'')))]"
    by blast+
  with d h2 show ?thesis
    by (simp add: ex_uuid_simps ex_instances_simps) (simp add: ex_instance_def)
qed

text \<open>
  C10. For an instance id that is a UUID and that no row of \<^verbatim>\<open>agent_instances\<close>
  carries, \<^verbatim>\<open>update_instance\<close> raises nothing: it returns the success response with the
  requested status, and the database is as it was.
\<close>

theorem update_instance_missing:
  assumes "UUID env instance_id = Some iid"
    and "iid \<notin> i_instance_id ` set (agent_instances (data db))"
  shows "fst (update_instance env instance_id status tenant_id db)
           = Inr (JObj [(''instance_id'', JStr instance_id), (''status'', JStr status)]) \<and>
         data (snd (update_instance env instance_id status tenant_id db)) = data db"
proof -
  have "map (\<lambda>r. if i_instance_id r = iid then r\<lparr>i_status := status\<rparr> else r)
          (agent_instances (data db)) = agent_instances (data db)"
    using assms(2) by (intro map_idI) auto
  then show ?thesis
    using assms(1) by (simp add: update_instance_runs commit_def)
qed

theorem update_instance_missing_witness:
  "UUID ex_env ex_vid = Some 161 \<and>
   161 \<notin> i_instance_id ` set (agent_instances (data (ex_instances ''active''))) \<and>
   fst (update_instance ex_env ex_vid ''paused'' 1 (ex_instances ''active''))
     = Inr (JObj [(''instance_id'', JStr ex_vid), (''status'', JStr ''paused'')]) \<and>
   data (snd (update_instance ex_env ex_vid ''paused'' 1 (ex_instances ''active'')))
     = data (ex_instances ''active'')"
proof -
  have h2: "161 \<notin> i_instance_id ` set (agent_instances (data (ex_instances ''active'')))"
    by (simp add: ex_instances_simps)
  from update_instance_missing [OF ex_uuid_simps(1) h2, of "''paused''" 1] h2
  show ?thesis by (simp add: ex_uuid_simps)
qed

section \<open>Creating a version\<close>

text \<open>
  Every \<^verbatim>\<open>create_version\<close> raises, and leaves the session as it found it: the
  \<^verbatim>\<open>ValueError\<close> of \<^verbatim>\<open>uuid.UUID\<close> for a template id that is not a UUID, and otherwise the
  \<^verbatim>\<open>ProgrammingError\<close> of the \<^verbatim>\<open>INSERT\<close>, to which the bundles are bound.
\<close>

lemma create_version_raises:
  "create_version env template_id req version_id now tenant_id db
     = (Inl (case UUID env template_id of
               None \<Rightarrow> ValueError
             | Some tid \<Rightarrow> SQLAlchemyError ProgrammingError), db)"
proof (cases "UUID env template_id")
  case None
  then show ?thesis by (simp add: create_version_def)
next
  case (Some tid)
  have "execute (INSERT ''agent_versions'')
          [P_uuid version_id, P_uuid tid, P_uuid tenant_id,
           P_str (cv_version_label req), P_str (cv_artifact_hash req),
           P_dict (cv_model_bundle req), P_dict (cv_prompt_bundle req),
           P_dict (cv_tool_manifest req), P_list (cv_data_scopes_declared req),
           opt_dict (cv_build_provenance req)] f db
        = Inl (SQLAlchemyError ProgrammingError)" for f
    by (rule execute_dict [of "cv_model_bundle req"]) simp
  with Some show ?thesis by (simp add: create_version_def Let_def)
qed

text \<open>
  C6, as the specification states it, fails. On a database with no template at all, the
  first tenant's request to create a version under a template id fails, but with the
  \<^verbatim>\<open>ProgrammingError\<close> of the \<^verbatim>\<open>INSERT\<close>, which is not a 404.
\<close>

theorem create_version_missing_template:
  "\<not> known_template ex_env (data (new_session empty_database)) 1 ex_tid \<and>
   fst (app ex_env (Some ''Bearer tok-1'') (CreateVersion ex_tid ex_request 161 10)
          (new_session empty_database))
     = Inl (SQLAlchemyError ProgrammingError) \<and>
   \<not> NotFound (SQLAlchemyError ProgrammingError)"
  by (simp add: app_def authenticated_def ex_auth create_version_raises ex_uuid_simps
      NotFound_def new_session_def empty_database_def known_template_def)

text \<open>
  C6, amended. A request to create a version under a template id that names no
  template of the caller (none at all, or one of another tenant) is never answered
  with a 404: \<^verbatim>\<open>create_version\<close> runs no statement, so none that looks the template up.
  No row is added to \<^verbatim>\<open>agent_versions\<close>.
\<close>

theorem create_version_no_lookup:
  assumes "\<not> known_template env (data db) tenant_id template_id"
  shows "(\<forall>e. fst (create_version env template_id req version_id now tenant_id db) = Inl e \<longrightarrow>
            \<not> NotFound e) \<and>
         executed (snd (create_version env template_id req version_id now tenant_id db))
           = executed db \<and>
         agent_versions (data (snd (create_version env template_id req version_id now tenant_id db)))
           = agent_versions (data db)"
  by (simp add: create_version_raises NotFound_def split: option.splits)

theorem create_version_no_lookup_witness:
  "\<not> known_template ex_env (data (ex_versions ''draft'' [])) 2 ex_tid \<and>
   fst (create_version ex_env ex_tid ex_request 161 10 2 (ex_versions ''draft'' []))
     = Inl (SQLAlchemyError ProgrammingError) \<and>
   \<not> NotFound (SQLAlchemyError ProgrammingError) \<and>
   executed (snd (create_version ex_env ex_tid ex_request 161 10 2 (ex_versions ''draft'' []))) = [] \<and>
   agent_versions (data (snd (create_version ex_env ex_tid ex_request 161 10 2 (ex_versions ''draft'' []))))
     = [ex_version ''draft'']"
proof -
  have k: "\<not> known_template ex_env (data (ex_versions ''draft'' [])) 2 ex_tid"
    by (simp add: known_template_def ex_uuid_simps ex_versions_def new_session_def
        empty_database_def)
  have f: "fst (create_version ex_env ex_tid ex_request 161 10 2 (ex_versions ''draft'' []))
             = Inl (SQLAlchemyError ProgrammingError)"
    by (simp add: create_version_raises ex_uuid_simps)
  have v: "agent_versions (data (ex_versions ''draft'' [])) = [ex_version ''draft'']"
    by (simp add: ex_versions_def new_session_def)
  from create_version_no_lookup [OF k, of ex_request 161 10] k f v
  show ?thesis by (simp add: ex_versions_simps)
qed

section \<open>Tenants\<close>

text \<open>
  When \<^verbatim>\<open>get_current_tenant\<close> returns a tenant, it has sent \<^verbatim>\<open>SET LOCAL\<close> and committed:
  the transaction the setting was local to is over, and the handler starts on a session
  with no tenant set.
\<close>

lemma get_current_tenant_Inr:
  assumes "get_current_tenant env authorization db = (Inr tenant_id, db')"
  shows "app_current_tenant db' = None \<and>
         (\<exists>v. executed db' = executed db @ [SET_LOCAL v, COMMIT])"
  using assms
  by (auto simp: get_current_tenant_def Let_def commit_def
      split: option.splits if_splits sum.splits json.splits)

text \<open>No get or list handler uses the tenant it is given.\<close>

lemma read_ignores_tenant:
  "is_read rq \<Longrightarrow> handler env rq t1 db = handler env rq t2 db"
  by (cases rq)
     (simp_all add: list_templates_def get_version_def list_instances_def list_policies_def
        get_policy_def)

lemma ex_created_eq:
  "app ex_env (Some ''Bearer tok-1'') (CreateTemplate ex_template_request 177 10)
     (new_session empty_database)
   = (Inr (JObj [(''template_id'', JStr ex_tid), (''name'', JStr ''support-bot'')]),
      \<lparr>data = empty_database\<lparr>agent_templates := [ex_template]\<rparr>,
       app_current_tenant = None,
       executed = [SET_LOCAL (JStr ''00000000-0000-0000-0000-000000000001''), COMMIT,
                   INSERT ''agent_templates'', COMMIT],
       committed = [empty_database, empty_database\<lparr>agent_templates := [ex_template]\<rparr>]\<rparr>)"
  by (simp add: app_def authenticated_def ex_auth create_template_def execute_def adapts_opt_str
      Let_def commit_def new_session_def ex_template_request_def ex_template_def
      empty_database_def)
     (simp add: ex_env_def ex_str_def ex_tid_def)

text \<open>
  C2 at a concrete input. The first tenant creates a template, and the row that its
  request makes durable carries its tenant id. The second tenant, authenticated as
  itself, then lists the templates in a new session on the durable tables, and the list
  it receives holds the template of the first tenant.
\<close>

theorem list_templates_cross_tenant:
  "fst (app ex_env (Some ''Bearer tok-1'') (CreateTemplate ex_template_request 177 10)
          (new_session empty_database))
     = Inr (JObj [(''template_id'', JStr ex_tid), (''name'', JStr ''support-bot'')]) \<and>
   map t_tenant_id (agent_templates (last (committed ex_created))) = [1] \<and>
   fst (get_current_tenant ex_env (Some ''Bearer tok-2'') (new_session (last (committed ex_created))))
     = Inr 2 \<and>
   fst (app ex_env (Some ''Bearer tok-2'') ListTemplates (new_session (last (committed ex_created))))
     = Inr (JObj [(''templates'',
              JArr [JObj [(''template_id'', JStr ex_tid), (''name'', JStr ''support-bot''),
                          (''description'', JNull), (''tags'', JArr [JStr ''prod'']),
                          (''created_at'', JStr ''2024-01-01T00:00:00'')]])])"
proof -
  have l: "last (committed ex_created) = empty_database\<lparr>agent_templates := [ex_template]\<rparr>"
    by (simp add: ex_created_def ex_created_eq)
  have c1: "fst (app ex_env (Some ''Bearer tok-1'') (CreateTemplate ex_template_request 177 10)
                  (new_session empty_database))
              = Inr (JObj [(''template_id'', JStr ex_tid), (''name'', JStr ''support-bot'')])"
    by (simp add: ex_created_eq)
  have c2: "map t_tenant_id (agent_templates (last (committed ex_created))) = [1]"
    by (simp add: l ex_template_def)
  have c3: "fst (get_current_tenant ex_env (Some ''Bearer tok-2'')
                  (new_session (last (committed ex_created)))) = Inr 2"
    by (simp add: ex_auth)
  have c4: "fst (app ex_env (Some ''Bearer tok-2'') ListTemplates
                  (new_session (last (committed ex_created))))
              = Inr (JObj [(''templates'',
                  JArr [JObj [(''template_id'', JStr ex_tid), (''name'', JStr ''support-bot''),
                              (''description'', JNull), (''tags'', JArr [JStr ''prod'']),
                              (''created_at'', JStr ''2024-01-01T00:00:00'')]])])"
    unfolding l
    by (simp add: app_def authenticated_def ex_auth list_templates_def execute_def commit_def
        new_session_def order_by_desc_def json_str_opt_def ex_template_def)
       (simp add: ex_env_def ex_str_def ex_tid_def)
  from c1 c2 c3 c4 show ?thesis by blast
qed

section \<open>Failures\<close>

text \<open>Every \<^verbatim>\<open>create_policy\<close> raises at its \<^verbatim>\<open>INSERT\<close>, to which \<^verbatim>\<open>allowed_tools\<close> is bound.\<close>

lemma create_policy_raises:
  "create_policy env req policy_id now tenant_id db = (Inl (SQLAlchemyError ProgrammingError), db)"
proof -
  have "execute (INSERT ''policy_envelopes'')
          [P_uuid policy_id, P_uuid tenant_id, P_str (cp_name req),
           P_int (cp_autonomy_tier req), P_dict (cp_allowed_tools req),
           P_list (cp_allowed_data_scopes req), opt_dict (cp_rate_limits req),
           opt_dict (cp_cost_limits req), opt_dict (cp_guardrails req)] f db
        = Inl (SQLAlchemyError ProgrammingError)" for f
    by (rule execute_dict [of "cp_allowed_tools req"]) simp
  then show ?thesis by (simp add: create_policy_def Let_def)
qed

lemma get_current_tenant_http:
  assumes "get_current_tenant env authorization db = (Inl (HTTPException code detail), db')"
  shows "HTTPException code detail \<in> set fixed_failures \<or>
         code = 401 \<and> (\<exists>x. detail = ''Invalid token: '' @ x)"
proof (cases authorization)
  case None
  with assms show ?thesis by (auto simp: get_current_tenant_def fixed_failures_def)
next
  case (Some a)
  show ?thesis
  proof (cases "a = [] \<or> \<not> startswith a ''Bearer ''")
    case True
    with assms Some show ?thesis by (auto simp: get_current_tenant_def fixed_failures_def)
  next
    case False
    then have len: "\<not> length (split_on CHR '' '' a) \<le> 1"
      using split_on_bearer [of a] by auto
    show ?thesis
    proof (cases "jwt_decode env (split_on CHR '' '' a ! 1)")
      case (Inl x)
      with assms Some False len show ?thesis
        by (auto simp: get_current_tenant_def)
    next
      case (Inr payload)
      with assms Some False len show ?thesis
        by (auto simp: get_current_tenant_def Let_def
            split: if_splits option.splits json.splits sum.splits)
    qed
  qed
qed

lemma handler_http:
  assumes "fst (handler env rq tenant_id db) = Inl (HTTPException code detail)"
  shows "HTTPException code detail \<in> set fixed_failures"
  using assms
  by (cases rq)
     (auto simp: create_template_def list_templates_def create_version_raises get_version_def
        promote_version_def create_instance_def list_instances_def update_instance_def
        create_policy_def list_policies_def get_policy_def fixed_failures_def Let_def
        execute_def
        split: option.splits if_splits)

text \<open>
  C9, as the specification states it, fails. For a bearer token that does not decode,
  the detail of the 401 is \<^verbatim>\<open>Invalid token:\<close> followed by the text of the exception
  that \<^verbatim>\<open>jwt.decode\<close> raised, which is none of the fixed messages.
\<close>

theorem exception_text_in_response:
  "jwt_decode ex_env ''zzz'' = Inl ''Not enough segments'' \<and>
   fst (app ex_env (Some ''Bearer zzz'') ListTemplates (new_session empty_database))
     = Inl (HTTPException 401 (''Invalid token: '' @ ''Not enough segments'')) \<and>
   HTTPException 401 (''Invalid token: '' @ ''Not enough segments'') \<notin> set fixed_failures"
  by (simp add: app_def authenticated_def get_current_tenant_def startswith_def ex_decode_simps
      fixed_failures_def)


text \<open>
  C9, amended. Every \<^verbatim>\<open>HTTPException\<close> that a request raises has status 401, 400 or 404
  and, as its detail, one of the messages written in the source, with one exception:
  the 401 raised by the \<^verbatim>\<open>except\<close> clause of \<^verbatim>\<open>get_current_tenant\<close>, whose detail is
  \<^verbatim>\<open>Invalid token:\<close> followed by the text of the exception caught there.
\<close>

theorem http_exceptions_raised:
  assumes "fst (app env authorization rq db) = Inl (HTTPException code detail)"
  shows "HTTPException code detail \<in> set fixed_failures \<or>
         code = 401 \<and> (\<exists>x. detail = ''Invalid token: '' @ x)"
proof (cases "rq = Health")
  case True
  with assms show ?thesis by (simp add: app_def)
next
  case False
  obtain res db' where g: "get_current_tenant env authorization db = (res, db')"
    by (cases "get_current_tenant env authorization db")
  show ?thesis
  proof (cases res)
    case (Inl e)
    with assms False g have "e = HTTPException code detail"
      by (simp add: app_def authenticated_def)
    with get_current_tenant_http g Inl show ?thesis by blast
  next
    case (Inr tenant_id)
    with assms False g have "fst (handler env rq tenant_id db') = Inl (HTTPException code detail)"
      by (simp add: app_def authenticated_def)
    from handler_http [OF this] show ?thesis by blast
  qed
qed

theorem http_exceptions_raised_witness:
  "fst (app ex_env (Some ''Bearer zzz'') ListTemplates (new_session empty_database))
     = Inl (HTTPException 401 (''Invalid token: '' @ ''Not enough segments'')) \<and>
   HTTPException 401 (''Invalid token: '' @ ''Not enough segments'') \<notin> set fixed_failures \<and>
   fst (app ex_env (Some ''Bearer tok-1'') (GetVersion ex_vid) (new_session empty_database))
     = Inl (HTTPException 404 ''Version not found'') \<and>
   HTTPException 404 ''Version not found'' \<in> set fixed_failures"
proof -
  have a: "fst (app ex_env (Some ''Bearer zzz'') ListTemplates (new_session empty_database))
     = Inl (HTTPException 401 (''Invalid token: '' @ ''Not enough segments''))"
    by (simp add: app_def authenticated_def get_current_tenant_def startswith_def ex_decode_simps)
  have c: "fst (app ex_env (Some ''Bearer tok-1'') (GetVersion ex_vid) (new_session empty_database))
     = Inl (HTTPException 404 ''Version not found'')"
    by (simp add: app_def authenticated_def ex_auth get_version_def ex_uuid_simps Let_def
        execute_def commit_def new_session_def empty_database_def fetchone_def)
  from http_exceptions_raised [OF a] http_exceptions_raised [OF c] a c
  show ?thesis by (simp add: fixed_failures_def)
qed

end
